theory Spec2Isabelle
  imports Main "HOL-Library.Char_ord" "HOL-Library.List_Lexorder"
begin

section \<open>Go integer arithmetic\<close>

text \<open>
  The controller computes with Go's \<^verbatim>\<open>int64\<close> and \<^verbatim>\<open>int\<close> (64 bits wide on the
  platforms the controller is built for).  Values are modelled as mathematical integers
  and every arithmetic operation wraps its result into the two's complement range
  \<open>-2^63 .. 2^63 - 1\<close>, as the Go specification prescribes for signed overflow.
  Division truncates towards zero; division by zero is a run-time panic and is modelled
  at each place where the divisor is not guarded.
\<close>

definition wrap64 :: "int \<Rightarrow> int" where
  "wrap64 x = (x + 2 ^ 63) mod 2 ^ 64 - 2 ^ 63"

definition add64 :: "int \<Rightarrow> int \<Rightarrow> int" where
  "add64 a b = wrap64 (a + b)"

definition sub64 :: "int \<Rightarrow> int \<Rightarrow> int" where
  "sub64 a b = wrap64 (a - b)"

definition mul64 :: "int \<Rightarrow> int \<Rightarrow> int" where
  "mul64 a b = wrap64 (a * b)"

text \<open>Go's \<^verbatim>\<open>a / b\<close> for a non-zero divisor: the quotient rounded towards zero.\<close>

definition truncQuot :: "int \<Rightarrow> int \<Rightarrow> int" where
  "truncQuot a b = (if (a < 0) = (b < 0) then \<bar>a\<bar> div \<bar>b\<bar> else - (\<bar>a\<bar> div \<bar>b\<bar>))"

definition quot64 :: "int \<Rightarrow> int \<Rightarrow> int" where
  "quot64 a b = wrap64 (truncQuot a b)"

definition in_int64 :: "int \<Rightarrow> bool" where
  "in_int64 x \<longleftrightarrow> - (2 ^ 63) \<le> x \<and> x < 2 ^ 63"

section \<open>Allocator\<close>

text \<open>
  \<^verbatim>\<open>RunnerSetResources\<close> as the allocator and its tests use it: the fields of the
  struct, with \<^verbatim>\<open>MinRunners\<close> read by both allocation strategies.
\<close>

record RunnerSetResources =
  Name :: string
  CPUMillis :: int
  MemoryBytes :: int
  Priority :: int
  MinRunners :: int
  CurrentMax :: int
  ConfiguredMax :: int

record RunnerSetAllocation =
  AllocName :: string
  MaxRunners :: int

text \<open>\<^verbatim>\<open>calculateMaxRunners\<close>: how many runners of one set fit into the given capacity.\<close>

definition calculateMaxRunners :: "RunnerSetResources \<Rightarrow> int \<Rightarrow> int \<Rightarrow> int" where
  "calculateMaxRunners rs availableCPUMillis availableMemoryBytes =
     (if CPUMillis rs \<le> 0 \<or> MemoryBytes rs \<le> 0 then 0
      else
        let maxByCPU = quot64 availableCPUMillis (CPUMillis rs);
            maxByMemory = quot64 availableMemoryBytes (MemoryBytes rs)
        in max 0 (min maxByMemory maxByCPU))"

text \<open>
  The comparison function handed to \<^verbatim>\<open>sort.Slice\<close> by both strategies: higher
  priority first, then the name in ascending (bytewise) order.
\<close>

definition prioLess :: "RunnerSetResources \<Rightarrow> RunnerSetResources \<Rightarrow> bool" where
  "prioLess a b =
     (if Priority a \<noteq> Priority b then Priority a > Priority b else Name a < Name b)"

text \<open>
  \<^verbatim>\<open>sort.Slice\<close> is modelled by an insertion sort under the comparison function.
  The library sort gives no promise on the order of elements that compare equal; the
  model keeps them in input order.
\<close>

fun insertBy :: "('a \<Rightarrow> 'a \<Rightarrow> bool) \<Rightarrow> 'a \<Rightarrow> 'a list \<Rightarrow> 'a list" where
  "insertBy lt x [] = [x]"
| "insertBy lt x (y # ys) =
     (if lt y x then y # insertBy lt x ys else x # y # ys)"

fun sortSlice :: "('a \<Rightarrow> 'a \<Rightarrow> bool) \<Rightarrow> 'a list \<Rightarrow> 'a list" where
  "sortSlice lt [] = []"
| "sortSlice lt (x # xs) = insertBy lt x (sortSlice lt xs)"

definition sortedRunnerSets :: "RunnerSetResources list \<Rightarrow> RunnerSetResources list" where
  "sortedRunnerSets runnerSets = sortSlice prioLess runnerSets"

text \<open>
  The body of the loop of \<^verbatim>\<open>Allocate\<close> for one runner set: the fit into the remaining
  capacity, then the minimum guarantee, then the hard cap.
\<close>

definition strictSlots :: "RunnerSetResources \<Rightarrow> int \<Rightarrow> int \<Rightarrow> int" where
  "strictSlots rs remainingCPU remainingMemory =
     (let maxRunners = calculateMaxRunners rs remainingCPU remainingMemory;
          maxRunners = (if MinRunners rs > 0 \<and> maxRunners < MinRunners rs
                        then MinRunners rs else maxRunners);
          maxRunners = (if ConfiguredMax rs > 0 \<and> maxRunners > ConfiguredMax rs
                        then ConfiguredMax rs else maxRunners)
      in maxRunners)"

fun allocateLoop ::
  "RunnerSetResources list \<Rightarrow> int \<Rightarrow> int \<Rightarrow> RunnerSetAllocation list" where
  "allocateLoop [] remainingCPU remainingMemory = []"
| "allocateLoop (rs # rest) remainingCPU remainingMemory =
     (let maxRunners = strictSlots rs remainingCPU remainingMemory;
          allocatedCPU = mul64 maxRunners (CPUMillis rs);
          allocatedMemory = mul64 maxRunners (MemoryBytes rs)
      in \<lparr>AllocName = Name rs, MaxRunners = maxRunners\<rparr>
           # allocateLoop rest (sub64 remainingCPU allocatedCPU)
               (sub64 remainingMemory allocatedMemory))"

text \<open>
  \<^verbatim>\<open>Allocate\<close>, the strict-priority strategy.  Its error result is always nil, so the
  model returns the allocations alone.
\<close>

definition Allocate ::
  "RunnerSetResources list \<Rightarrow> int \<Rightarrow> int \<Rightarrow> RunnerSetAllocation list" where
  "Allocate runnerSets availableCPUMillis availableMemoryBytes =
     allocateLoop (sortedRunnerSets runnerSets) availableCPUMillis availableMemoryBytes"

text \<open>
  A run-time panic of the Go program.  The only one the allocator can raise is the
  integer division by zero in the share computation of \<^verbatim>\<open>AllocateFairShare\<close>.
\<close>

datatype panic = DivideByZero

text \<open>The local struct \<^verbatim>\<open>allocation\<close> of \<^verbatim>\<open>AllocateFairShare\<close>.\<close>

record fsAllocation =
  fsRunnerSet :: RunnerSetResources
  fsMaxRunners :: int
  fsAllocatedCPU :: int
  fsAllocatedMemory :: int
  fsCappedByMax :: bool

text \<open>
  The priority weight both loops of \<^verbatim>\<open>AllocateFairShare\<close> compute: the priority,
  with exactly the value 0 replaced by 1.
\<close>

definition priorityWeight :: "RunnerSetResources \<Rightarrow> int" where
  "priorityWeight rs = (let priority = Priority rs in if priority = 0 then 1 else priority)"

fun totalWeightLoop :: "RunnerSetResources list \<Rightarrow> int \<Rightarrow> int" where
  "totalWeightLoop [] totalPriorityWeight = totalPriorityWeight"
| "totalWeightLoop (rs # rest) totalPriorityWeight =
     totalWeightLoop rest (add64 totalPriorityWeight (priorityWeight rs))"

definition totalPriorityWeight :: "RunnerSetResources list \<Rightarrow> int" where
  "totalPriorityWeight runnerSets = totalWeightLoop runnerSets 0"

text \<open>
  The proportional share of one resource; the caller has checked that the total weight
  is not zero.
\<close>

definition shareOf :: "int \<Rightarrow> RunnerSetResources \<Rightarrow> int \<Rightarrow> int" where
  "shareOf available rs tw = quot64 (mul64 available (priorityWeight rs)) tw"

definition firstPassEntry ::
  "RunnerSetResources \<Rightarrow> int \<Rightarrow> int \<Rightarrow> int \<Rightarrow> fsAllocation" where
  "firstPassEntry rs availableCPUMillis availableMemoryBytes tw =
     (let cpuShare = shareOf availableCPUMillis rs tw;
          memoryShare = shareOf availableMemoryBytes rs tw;
          fit = calculateMaxRunners rs cpuShare memoryShare;
          capped = (ConfiguredMax rs > 0 \<and> fit > ConfiguredMax rs);
          slots = (if capped then ConfiguredMax rs else fit)
      in \<lparr>fsRunnerSet = rs, fsMaxRunners = slots,
           fsAllocatedCPU = mul64 slots (CPUMillis rs),
           fsAllocatedMemory = mul64 slots (MemoryBytes rs),
           fsCappedByMax = capped\<rparr>)"

text \<open>
  The first pass.  The division by the total weight is executed for each runner set, so
  a total of zero panics as soon as the list has an element.
\<close>

definition firstPass ::
  "RunnerSetResources list \<Rightarrow> int \<Rightarrow> int \<Rightarrow> int \<Rightarrow> panic + fsAllocation list" where
  "firstPass runnerSets availableCPUMillis availableMemoryBytes tw =
     (if runnerSets \<noteq> [] \<and> tw = 0 then Inl DivideByZero
      else Inr (map (\<lambda>rs. firstPassEntry rs availableCPUMillis availableMemoryBytes tw)
                  runnerSets))"

text \<open>The minimum enforcement for one entry of the allocation slice.\<close>

definition enforceMinimum :: "fsAllocation \<Rightarrow> fsAllocation" where
  "enforceMinimum alloc =
     (let rs = fsRunnerSet alloc in
      if MinRunners rs > 0 \<and> fsMaxRunners alloc < MinRunners rs then
        let additional = sub64 (MinRunners rs) (fsMaxRunners alloc);
            additionalCPU = mul64 additional (CPUMillis rs);
            additionalMemory = mul64 additional (MemoryBytes rs)
        in alloc\<lparr>fsMaxRunners := MinRunners rs,
                 fsAllocatedCPU := add64 (fsAllocatedCPU alloc) additionalCPU,
                 fsAllocatedMemory := add64 (fsAllocatedMemory alloc) additionalMemory\<rparr>
      else alloc)"

text \<open>
  \<^verbatim>\<open>totalAllocatedCPU\<close> and \<^verbatim>\<open>totalAllocatedMemory\<close> after the first pass and the
  minimum enforcement: every amount added to an entry is added to the running total as
  well, so the totals are the wrapped sums of the entries.
\<close>

fun sumCPU :: "fsAllocation list \<Rightarrow> int \<Rightarrow> int" where
  "sumCPU [] acc = acc"
| "sumCPU (alloc # rest) acc = sumCPU rest (add64 acc (fsAllocatedCPU alloc))"

fun sumMemory :: "fsAllocation list \<Rightarrow> int \<Rightarrow> int" where
  "sumMemory [] acc = acc"
| "sumMemory (alloc # rest) acc = sumMemory rest (add64 acc (fsAllocatedMemory alloc))"

text \<open>The inner loop that writes a changed entry back: the first entry of that name.\<close>

fun updateOriginal :: "fsAllocation list \<Rightarrow> fsAllocation \<Rightarrow> fsAllocation list" where
  "updateOriginal [] alloc = []"
| "updateOriginal (a # rest) alloc =
     (if Name (fsRunnerSet a) = Name (fsRunnerSet alloc) then alloc # rest
      else a # updateOriginal rest alloc)"

text \<open>What the redistribution loop does with one entry of the sorted copy.\<close>

definition additionalFor :: "fsAllocation \<Rightarrow> int \<Rightarrow> int \<Rightarrow> int" where
  "additionalFor alloc remainingCPU remainingMemory =
     (let rs = fsRunnerSet alloc in
      if ConfiguredMax rs > 0 \<and> fsMaxRunners alloc \<ge> ConfiguredMax rs then 0
      else
        let additionalRunners = calculateMaxRunners rs remainingCPU remainingMemory in
        if additionalRunners = 0 then 0
        else if ConfiguredMax rs > 0
          then min additionalRunners (sub64 (ConfiguredMax rs) (fsMaxRunners alloc))
          else additionalRunners)"

fun redistribute ::
  "fsAllocation list \<Rightarrow> fsAllocation list \<Rightarrow> int \<Rightarrow> int \<Rightarrow> fsAllocation list" where
  "redistribute [] allocations remainingCPU remainingMemory = allocations"
| "redistribute (alloc # rest) allocations remainingCPU remainingMemory =
     (let maxAdditional = additionalFor alloc remainingCPU remainingMemory in
      if maxAdditional > 0 then
        let rs = fsRunnerSet alloc;
            additionalCPU = mul64 maxAdditional (CPUMillis rs);
            additionalMemory = mul64 maxAdditional (MemoryBytes rs);
            alloc' = alloc\<lparr>fsMaxRunners := add64 (fsMaxRunners alloc) maxAdditional,
                            fsAllocatedCPU := add64 (fsAllocatedCPU alloc) additionalCPU,
                            fsAllocatedMemory := add64 (fsAllocatedMemory alloc) additionalMemory\<rparr>
        in redistribute rest (updateOriginal allocations alloc')
             (sub64 remainingCPU additionalCPU) (sub64 remainingMemory additionalMemory)
      else redistribute rest allocations remainingCPU remainingMemory)"

definition fsLess :: "fsAllocation \<Rightarrow> fsAllocation \<Rightarrow> bool" where
  "fsLess a b = prioLess (fsRunnerSet a) (fsRunnerSet b)"

definition secondPass :: "fsAllocation list \<Rightarrow> int \<Rightarrow> int \<Rightarrow> fsAllocation list" where
  "secondPass allocations availableCPUMillis availableMemoryBytes =
     (let remainingCPU = sub64 availableCPUMillis (sumCPU allocations 0);
          remainingMemory = sub64 availableMemoryBytes (sumMemory allocations 0)
      in if remainingCPU > 0 \<or> remainingMemory > 0
         then redistribute (sortSlice fsLess allocations) allocations
                remainingCPU remainingMemory
         else allocations)"

definition toResult :: "fsAllocation \<Rightarrow> RunnerSetAllocation" where
  "toResult alloc =
     \<lparr>AllocName = Name (fsRunnerSet alloc), MaxRunners = fsMaxRunners alloc\<rparr>"

text \<open>\<^verbatim>\<open>AllocateFairShare\<close>, the weighted fair share strategy with redistribution.\<close>

definition AllocateFairShare ::
  "RunnerSetResources list \<Rightarrow> int \<Rightarrow> int \<Rightarrow> panic + RunnerSetAllocation list" where
  "AllocateFairShare runnerSets availableCPUMillis availableMemoryBytes =
     (if runnerSets = [] then Inr []
      else
        case firstPass runnerSets availableCPUMillis availableMemoryBytes
               (totalPriorityWeight runnerSets) of
          Inl p \<Rightarrow> Inl p
        | Inr allocations \<Rightarrow>
            Inr (map toResult
                  (secondPass (map enforceMinimum allocations)
                     availableCPUMillis availableMemoryBytes)))"

section \<open>Quantity parser\<close>

text \<open>
  \<^verbatim>\<open>strconv.ParseInt(value, 10, 64)\<close> of the Go standard library: an optional sign, then
  one or more decimal digits and nothing else; a value outside the 64 bit range is an
  error.  \<^verbatim>\<open>strconv.Atoi\<close> is the same function for the 64 bit \<^verbatim>\<open>int\<close>.
\<close>

definition isDigit :: "char \<Rightarrow> bool" where
  "isDigit c \<longleftrightarrow> c \<in> set ''0123456789''"

definition digitVal :: "char \<Rightarrow> int" where
  "digitVal c = int (of_char c) - 48"

fun digitsVal :: "string \<Rightarrow> int \<Rightarrow> int" where
  "digitsVal [] n = n"
| "digitsVal (c # cs) n = digitsVal cs (10 * n + digitVal c)"

definition ParseInt :: "string \<Rightarrow> int option" where
  "ParseInt s =
     (case s of
        [] \<Rightarrow> None
      | c # rest \<Rightarrow>
          let neg = (c = CHR ''-'');
              ds = (if c = CHR ''+'' \<or> c = CHR ''-'' then rest else s)
          in if ds = [] \<or> \<not> list_all isDigit ds then None
             else
               let n = digitsVal ds 0; v = (if neg then - n else n)
               in if in_int64 v then Some v else None)"

definition Atoi :: "string \<Rightarrow> int option" where
  "Atoi s = ParseInt s"

text \<open>
  A \<^verbatim>\<open>resource.Quantity\<close> of the Kubernetes library, held as its exact number of
  thousandths.  \<^verbatim>\<open>MilliValue\<close> reads the thousandths and \<^verbatim>\<open>Value\<close> the whole units,
  rounded up as the library does.  Precision below a thousandth is not modelled.
\<close>

datatype Quantity = Thousandths int

fun MilliValue :: "Quantity \<Rightarrow> int" where
  "MilliValue (Thousandths n) = n"

fun Value :: "Quantity \<Rightarrow> int" where
  "Value (Thousandths n) = - ((- n) div 1000)"

text \<open>
  Modelled from the spec: the suffixes of a quantity that section 4.1 of the
  specification lists, each with its size in thousandths: \<^verbatim>\<open>m\<close> (milli), \<^verbatim>\<open>Ki\<close>,
  \<^verbatim>\<open>Mi\<close>, \<^verbatim>\<open>Gi\<close>, \<^verbatim>\<open>Ti\<close> (powers of 1024), \<^verbatim>\<open>k\<close>, \<^verbatim>\<open>M\<close>, \<^verbatim>\<open>G\<close>, \<^verbatim>\<open>T\<close>
  (powers of 1000), and no suffix for whole units.
\<close>

definition suffixThousandths :: "(string \<times> int) list" where
  "suffixThousandths =
     [([], 1000), (''m'', 1),
      (''Ki'', 1024 * 1000), (''Mi'', 1024 ^ 2 * 1000),
      (''Gi'', 1024 ^ 3 * 1000), (''Ti'', 1024 ^ 4 * 1000),
      (''k'', 1000 * 1000), (''M'', 1000 ^ 2 * 1000),
      (''G'', 1000 ^ 3 * 1000), (''T'', 1000 ^ 4 * 1000)]"

text \<open>
  Modelled from the spec: \<^verbatim>\<open>resource.ParseQuantity\<close> belongs to the Kubernetes library
  and is not part of this repository.  The model accepts decimal digits followed by
  one of the suffixes above; every other string is rejected.
\<close>

definition ParseQuantity :: "string \<Rightarrow> Quantity option" where
  "ParseQuantity s =
     (let ds = takeWhile isDigit s; suffix = dropWhile isDigit s
      in if ds = [] then None
         else case map_of suffixThousandths suffix of
                None \<Rightarrow> None
              | Some unit \<Rightarrow> Some (Thousandths (digitsVal ds 0 * unit)))"

datatype ParseError = InvalidQuantity

text \<open>\<^verbatim>\<open>parseResourceQuantityOrInt\<close>: the raw integer first, then the quantity.\<close>

definition parseResourceQuantityOrInt :: "string \<Rightarrow> bool \<Rightarrow> ParseError + int" where
  "parseResourceQuantityOrInt v isCPU =
     (case ParseInt v of
        Some intVal \<Rightarrow> Inr intVal
      | None \<Rightarrow>
          (case ParseQuantity v of
             None \<Rightarrow> Inl InvalidQuantity
           | Some q \<Rightarrow> if isCPU then Inr (MilliValue q) else Inr (Value q)))"

section \<open>Resource extractor\<close>

text \<open>The annotation keys of package \<^verbatim>\<open>config\<close>.\<close>

definition AnnotationEnabled :: string where
  "AnnotationEnabled = ''kula.app/gha-runner-autoscaler-enabled''"

definition AnnotationCPU :: string where
  "AnnotationCPU = ''kula.app/gha-runner-autoscaler-cpu''"

definition AnnotationMemory :: string where
  "AnnotationMemory = ''kula.app/gha-runner-autoscaler-memory''"

definition AnnotationPriority :: string where
  "AnnotationPriority = ''kula.app/gha-runner-autoscaler-priority''"

text \<open>
  The parts of a container and of an \<^verbatim>\<open>AutoscalingRunnerSet\<close> that the controller
  reads.  Go maps are association lists read with \<^const>\<open>map_of\<close>; a nil map of requests
  is \<open>None\<close>; the pointer \<^verbatim>\<open>Spec.MaxRunners\<close> is an option.
\<close>

record Container =
  ContainerName :: string
  Requests :: "(string \<times> Quantity) list option"

record AutoscalingRunnerSet =
  Namespace :: string
  ObjName :: string
  Annotations :: "(string \<times> string) list"
  SpecMaxRunners :: "int option"
  TemplateContainers :: "Container list"
  CurrentRunners :: int

datatype ExtractError =
  NotEnabled | InvalidPriority | InvalidCPU | MissingCPU | InvalidMemory | MissingMemory

text \<open>
  \<^verbatim>\<open>extractCPUFromPodSpec\<close> and \<^verbatim>\<open>extractMemoryFromPodSpec\<close>: the first container
  named \<^verbatim>\<open>runner\<close> that requests the resource decides.
\<close>

fun extractFromPodSpec :: "string \<Rightarrow> Container list \<Rightarrow> Quantity option" where
  "extractFromPodSpec res [] = None"
| "extractFromPodSpec res (container # rest) =
     (if ContainerName container = ''runner'' then
        (case Requests container of
           None \<Rightarrow> extractFromPodSpec res rest
         | Some requests \<Rightarrow>
             (case map_of requests res of
                None \<Rightarrow> extractFromPodSpec res rest
              | Some q \<Rightarrow> Some q))
      else extractFromPodSpec res rest)"

definition extractCPUFromPodSpec :: "AutoscalingRunnerSet \<Rightarrow> int option" where
  "extractCPUFromPodSpec rs =
     map_option MilliValue (extractFromPodSpec ''cpu'' (TemplateContainers rs))"

definition extractMemoryFromPodSpec :: "AutoscalingRunnerSet \<Rightarrow> int option" where
  "extractMemoryFromPodSpec rs =
     map_option Value (extractFromPodSpec ''memory'' (TemplateContainers rs))"

definition specMax :: "AutoscalingRunnerSet \<Rightarrow> int" where
  "specMax rs = (case SpecMaxRunners rs of None \<Rightarrow> 0 | Some n \<Rightarrow> n)"

text \<open>
  \<^verbatim>\<open>ExtractRunnerSetResources\<close>.  It reads the four annotations above and nothing else;
  \<^verbatim>\<open>MinRunners\<close> keeps the zero value of the freshly built struct.
\<close>

definition cpuOf :: "AutoscalingRunnerSet \<Rightarrow> ExtractError + int" where
  "cpuOf rs =
     (case map_of (Annotations rs) AnnotationCPU of
        Some cpuStr \<Rightarrow>
          (case parseResourceQuantityOrInt cpuStr True of
             Inl e \<Rightarrow> Inl InvalidCPU | Inr cpu \<Rightarrow> Inr cpu)
      | None \<Rightarrow>
          (case extractCPUFromPodSpec rs of
             None \<Rightarrow> Inl MissingCPU | Some cpu \<Rightarrow> Inr cpu))"

definition memoryOf :: "AutoscalingRunnerSet \<Rightarrow> ExtractError + int" where
  "memoryOf rs =
     (case map_of (Annotations rs) AnnotationMemory of
        Some memStr \<Rightarrow>
          (case parseResourceQuantityOrInt memStr False of
             Inl e \<Rightarrow> Inl InvalidMemory | Inr mem \<Rightarrow> Inr mem)
      | None \<Rightarrow>
          (case extractMemoryFromPodSpec rs of
             None \<Rightarrow> Inl MissingMemory | Some mem \<Rightarrow> Inr mem))"

definition priorityOf :: "AutoscalingRunnerSet \<Rightarrow> ExtractError + int" where
  "priorityOf rs =
     (case map_of (Annotations rs) AnnotationPriority of
        None \<Rightarrow> Inr 0
      | Some priorityStr \<Rightarrow>
          (case Atoi priorityStr of None \<Rightarrow> Inl InvalidPriority | Some p \<Rightarrow> Inr p))"

definition ExtractRunnerSetResources ::
  "AutoscalingRunnerSet \<Rightarrow> ExtractError + RunnerSetResources" where
  "ExtractRunnerSetResources rs =
     (if map_of (Annotations rs) AnnotationEnabled \<noteq> Some ''true'' then Inl NotEnabled
      else
        case priorityOf rs of
          Inl e \<Rightarrow> Inl e
        | Inr priority \<Rightarrow>
            (case cpuOf rs of
               Inl e \<Rightarrow> Inl e
             | Inr cpu \<Rightarrow>
                 (case memoryOf rs of
                    Inl e \<Rightarrow> Inl e
                  | Inr mem \<Rightarrow>
                      Inr \<lparr>Name = ObjName rs, CPUMillis = cpu, MemoryBytes = mem,
                           Priority = priority, MinRunners = 0,
                           CurrentMax = specMax rs, ConfiguredMax = specMax rs\<rparr>)))"

section \<open>Capacity calculator\<close>

text \<open>
  The parts of a node and of a pod that the calculator reads.  A condition is its type
  and its status; a nil label map is \<open>None\<close>.
\<close>

record Node =
  Allocatable :: "(string \<times> Quantity) list"
  Conditions :: "(string \<times> string) list"

record Pod =
  Phase :: string
  Labels :: "(string \<times> string) list option"
  PodContainers :: "Container list"

text \<open>
  The cluster as the controller sees it through its client: each list call either
  fails (\<open>None\<close>) or returns the objects, and a patch of a runner set either succeeds
  or fails.  The controller runs with the default configuration, whose namespace list
  is empty, so the runner sets are listed by one call over all namespaces.
\<close>

record Client =
  ListNodes :: "Node list option"
  ListPods :: "Pod list option"
  ListRunnerSets :: "AutoscalingRunnerSet list option"
  PatchOk :: "AutoscalingRunnerSet \<Rightarrow> int \<Rightarrow> bool"

record ClusterCapacity =
  TotalCPUMillis :: int
  TotalMemoryBytes :: int
  UsedCPUMillis :: int
  UsedMemoryBytes :: int
  AvailableCPUMillis :: int
  AvailableMemoryBytes :: int

text \<open>Reading a Go map of quantities: a missing key gives the zero quantity.\<close>

definition quantityAt :: "(string \<times> Quantity) list \<Rightarrow> string \<Rightarrow> Quantity" where
  "quantityAt m k = (case map_of m k of None \<Rightarrow> Thousandths 0 | Some q \<Rightarrow> q)"

definition requestAt :: "Container \<Rightarrow> string \<Rightarrow> Quantity" where
  "requestAt container k =
     (case Requests container of None \<Rightarrow> Thousandths 0 | Some m \<Rightarrow> quantityAt m k)"

fun isNodeReady :: "(string \<times> string) list \<Rightarrow> bool" where
  "isNodeReady [] = False"
| "isNodeReady ((ctype, status) # rest) =
     (if ctype = ''Ready'' then status = ''True'' else isNodeReady rest)"

definition isRunnerPod :: "Pod \<Rightarrow> bool" where
  "isRunnerPod pod =
     (case Labels pod of
        None \<Rightarrow> False
      | Some labels \<Rightarrow>
          if map_of labels ''actions.github.com/scale-set-name'' \<noteq> None
             \<and> map_of labels ''actions.github.com/scale-set-name'' \<noteq> Some []
          then True
          else map_of labels ''app.kubernetes.io/component'' = Some ''runner'')"

text \<open>The loop of \<^verbatim>\<open>getClusterCapacity\<close> over the nodes: CPU, memory, ready nodes.\<close>

fun nodeLoop :: "Node list \<Rightarrow> int \<times> int \<times> int \<Rightarrow> int \<times> int \<times> int" where
  "nodeLoop [] acc = acc"
| "nodeLoop (node # rest) (totalCPUMillis, totalMemoryBytes, readyNodes) =
     (if \<not> isNodeReady (Conditions node)
      then nodeLoop rest (totalCPUMillis, totalMemoryBytes, readyNodes)
      else
        let cpu = quantityAt (Allocatable node) ''cpu'';
            memory = quantityAt (Allocatable node) ''memory''
        in nodeLoop rest
             (add64 totalCPUMillis (MilliValue cpu), add64 totalMemoryBytes (Value memory),
              add64 readyNodes 1))"

definition getClusterCapacity :: "Client \<Rightarrow> (int \<times> int \<times> int) option" where
  "getClusterCapacity client =
     (case ListNodes client of
        None \<Rightarrow> None
      | Some nodes \<Rightarrow> Some (nodeLoop nodes (0, 0, 0)))"

text \<open>The inner loop of \<^verbatim>\<open>getCurrentUsage\<close> over the containers of one pod.\<close>

fun containerLoop :: "Container list \<Rightarrow> int \<times> int \<Rightarrow> int \<times> int" where
  "containerLoop [] acc = acc"
| "containerLoop (container # rest) (podCPU, podMemory) =
     containerLoop rest
       (add64 podCPU (MilliValue (requestAt container ''cpu'')),
        add64 podMemory (Value (requestAt container ''memory'')))"

definition isTerminal :: "Pod \<Rightarrow> bool" where
  "isTerminal pod \<longleftrightarrow> Phase pod = ''Succeeded'' \<or> Phase pod = ''Failed''"

text \<open>
  The loop of \<^verbatim>\<open>getCurrentUsage\<close> over the pods.  The six results are the counted
  CPU and memory, the excluded CPU and memory, the counted pods and the excluded pods.
\<close>

fun podLoop ::
  "Pod list \<Rightarrow> int \<times> int \<times> int \<times> int \<times> int \<times> int
     \<Rightarrow> int \<times> int \<times> int \<times> int \<times> int \<times> int" where
  "podLoop [] acc = acc"
| "podLoop (pod # rest) (cpu, mem, exCPU, exMem, counted, excluded) =
     (if isTerminal pod then podLoop rest (cpu, mem, exCPU, exMem, counted, excluded)
      else
        case containerLoop (PodContainers pod) (0, 0) of
          (podCPU, podMemory) \<Rightarrow>
            if isRunnerPod pod
            then podLoop rest
                   (cpu, mem, add64 exCPU podCPU, add64 exMem podMemory, counted,
                    add64 excluded 1)
            else podLoop rest
                   (add64 cpu podCPU, add64 mem podMemory, exCPU, exMem, add64 counted 1,
                    excluded))"

definition getCurrentUsage ::
  "Client \<Rightarrow> (int \<times> int \<times> int \<times> int \<times> int \<times> int) option" where
  "getCurrentUsage client =
     (case ListPods client of
        None \<Rightarrow> None
      | Some pods \<Rightarrow> Some (podLoop pods (0, 0, 0, 0, 0, 0)))"

datatype CapacityError = ListNodesFailed | ListPodsFailed

text \<open>
  \<^verbatim>\<open>Calculate\<close>: the available capacity behind the safety buffers.  The buffer
  percentages are the fields of the calculator.
\<close>

definition Calculate :: "Client \<Rightarrow> int \<Rightarrow> int \<Rightarrow> CapacityError + ClusterCapacity" where
  "Calculate client cpuBufferPercent memBufferPercent =
     (case getClusterCapacity client of
        None \<Rightarrow> Inl ListNodesFailed
      | Some (totalCPU, totalMemory, nodeCount) \<Rightarrow>
          (case getCurrentUsage client of
             None \<Rightarrow> Inl ListPodsFailed
           | Some (usedCPU, usedMemory, excludedCPU, excludedMemory, podCount,
                   excludedCount) \<Rightarrow>
               let rawAvailableCPU = max (sub64 totalCPU usedCPU) 0;
                   rawAvailableMemory = max (sub64 totalMemory usedMemory) 0;
                   availableCPU =
                     quot64 (mul64 rawAvailableCPU (sub64 100 cpuBufferPercent)) 100;
                   availableMemory =
                     quot64 (mul64 rawAvailableMemory (sub64 100 memBufferPercent)) 100
               in Inr \<lparr>TotalCPUMillis = totalCPU, TotalMemoryBytes = totalMemory,
                        UsedCPUMillis = usedCPU, UsedMemoryBytes = usedMemory,
                        AvailableCPUMillis = availableCPU,
                        AvailableMemoryBytes = availableMemory\<rparr>))"

text \<open>
  The capacity formulas in the words of the specification, for comparison with the
  loops above: totals over the ready nodes, usage over the pods that are neither
  terminal nor runner pods, and the buffered remainder.
\<close>

definition specTotalCPU :: "Node list \<Rightarrow> int" where
  "specTotalCPU nodes =
     (\<Sum>node \<leftarrow> filter (\<lambda>n. isNodeReady (Conditions n)) nodes.
        MilliValue (quantityAt (Allocatable node) ''cpu''))"

definition specTotalMemory :: "Node list \<Rightarrow> int" where
  "specTotalMemory nodes =
     (\<Sum>node \<leftarrow> filter (\<lambda>n. isNodeReady (Conditions n)) nodes.
        Value (quantityAt (Allocatable node) ''memory''))"

definition countedPods :: "Pod list \<Rightarrow> Pod list" where
  "countedPods pods = filter (\<lambda>p. \<not> isTerminal p \<and> \<not> isRunnerPod p) pods"

definition specUsedCPU :: "Pod list \<Rightarrow> int" where
  "specUsedCPU pods =
     (\<Sum>pod \<leftarrow> countedPods pods.
        \<Sum>container \<leftarrow> PodContainers pod. MilliValue (requestAt container ''cpu''))"

definition specUsedMemory :: "Pod list \<Rightarrow> int" where
  "specUsedMemory pods =
     (\<Sum>pod \<leftarrow> countedPods pods.
        \<Sum>container \<leftarrow> PodContainers pod. Value (requestAt container ''memory''))"

definition specAvailable :: "int \<Rightarrow> int \<Rightarrow> int \<Rightarrow> int" where
  "specAvailable totalAmount usedAmount bufferPercent =
     truncQuot (max (totalAmount - usedAmount) 0 * (100 - bufferPercent)) 100"

section \<open>Reconciler\<close>

text \<open>
  The fields of the configuration that one reconciliation reads.  The interval only
  paces the loop around it.
\<close>

record Config =
  CPUBufferPercent :: int
  MemoryBufferPercent :: int
  DryRun :: bool

text \<open>
  What the update loop of \<^verbatim>\<open>ReconcileOnce\<close> does for one allocation.  Each decision
  that found its runner set carries that object and the final \<^verbatim>\<open>maxRunners\<close> value
  \<^verbatim>\<open>newMax\<close>.  \<open>Updated\<close> and \<open>UpdateFailed\<close> are the two outcomes of a patch call.
\<close>

datatype Decision =
  RunnerSetNotFound string
| Unchanged AutoscalingRunnerSet int
| WouldUpdate AutoscalingRunnerSet int
| Updated AutoscalingRunnerSet int
| UpdateFailed AutoscalingRunnerSet int

definition decide ::
  "Config \<Rightarrow> Client \<Rightarrow> AutoscalingRunnerSet list \<Rightarrow> RunnerSetAllocation \<Rightarrow> Decision" where
  "decide cfg client runnerSets alloc =
     (case find (\<lambda>r. ObjName r = AllocName alloc) runnerSets of
        None \<Rightarrow> RunnerSetNotFound (AllocName alloc)
      | Some runnerSet \<Rightarrow>
          let currentMax = specMax runnerSet;
              currentlyRunning = CurrentRunners runnerSet;
              newMax = (if MaxRunners alloc < currentlyRunning then currentlyRunning
                        else MaxRunners alloc)
          in if currentMax = newMax then Unchanged runnerSet newMax
             else if DryRun cfg then WouldUpdate runnerSet newMax
             else if PatchOk client runnerSet newMax then Updated runnerSet newMax
             else UpdateFailed runnerSet newMax)"

text \<open>The extraction loop: runner sets whose extraction fails are skipped.\<close>

fun enabledRunnerSets :: "AutoscalingRunnerSet list \<Rightarrow> RunnerSetResources list" where
  "enabledRunnerSets [] = []"
| "enabledRunnerSets (r # rest) =
     (case ExtractRunnerSetResources r of
        Inl e \<Rightarrow> enabledRunnerSets rest
      | Inr resources \<Rightarrow> resources # enabledRunnerSets rest)"

datatype ReconcileError = CapacityFetchFailed | RunnerSetListFailed

record Outcome =
  Allocations :: "RunnerSetAllocation list"
  Decisions :: "Decision list"

text \<open>
  \<^verbatim>\<open>ReconcileOnce\<close>.  The result is the error that aborted the tick, or the allocations
  and what the update loop did with each of them; the two early returns leave both
  lists empty.
\<close>

definition ReconcileOnce :: "Config \<Rightarrow> Client \<Rightarrow> ReconcileError + Outcome" where
  "ReconcileOnce cfg client =
     (case Calculate client (CPUBufferPercent cfg) (MemoryBufferPercent cfg) of
        Inl e \<Rightarrow> Inl CapacityFetchFailed
      | Inr capacity \<Rightarrow>
          (case ListRunnerSets client of
             None \<Rightarrow> Inl RunnerSetListFailed
           | Some runnerSets \<Rightarrow>
               if runnerSets = [] then Inr \<lparr>Allocations = [], Decisions = []\<rparr>
               else
                 let enabled = enabledRunnerSets runnerSets in
                 if enabled = [] then Inr \<lparr>Allocations = [], Decisions = []\<rparr>
                 else
                   let allocations =
                         Allocate enabled (AvailableCPUMillis capacity)
                           (AvailableMemoryBytes capacity)
                   in Inr \<lparr>Allocations = allocations,
                           Decisions = map (decide cfg client runnerSets) allocations\<rparr>))"

text \<open>The final value of a decision together with the runner set it is for.\<close>

fun finalMax :: "Decision \<Rightarrow> (AutoscalingRunnerSet \<times> int) option" where
  "finalMax (RunnerSetNotFound n) = None"
| "finalMax (Unchanged r v) = Some (r, v)"
| "finalMax (WouldUpdate r v) = Some (r, v)"
| "finalMax (Updated r v) = Some (r, v)"
| "finalMax (UpdateFailed r v) = Some (r, v)"





section \<open>Inputs of the scenarios\<close>

definition GiB :: int where
  "GiB = 1024 * 1024 * 1024"

definition milliCPU :: "int \<Rightarrow> Quantity" where
  "milliCPU n = Thousandths n"

definition gibibytes :: "int \<Rightarrow> Quantity" where
  "gibibytes n = Thousandths (n * GiB * 1000)"

text \<open>A runner set whose minimum exceeds its configured maximum.\<close>

definition minOverCap :: RunnerSetResources where
  "minOverCap =
     \<lparr>Name = ''x'', CPUMillis = 1000, MemoryBytes = 1024, Priority = 0, MinRunners = 5,
      CurrentMax = 2, ConfiguredMax = 2\<rparr>"

text \<open>Scenario B of the specification.\<close>

definition scenarioB_HIGH :: RunnerSetResources where
  "scenarioB_HIGH =
     \<lparr>Name = ''HIGH'', CPUMillis = 1000, MemoryBytes = 2 * GiB, Priority = 400,
      MinRunners = 0, CurrentMax = 0, ConfiguredMax = 2\<rparr>"

definition scenarioB_LOW :: RunnerSetResources where
  "scenarioB_LOW =
     \<lparr>Name = ''LOW'', CPUMillis = 1000, MemoryBytes = 2 * GiB, Priority = 100,
      MinRunners = 0, CurrentMax = 0, ConfiguredMax = 20\<rparr>"

text \<open>Runner sets with a negative priority.\<close>

definition negPrio :: RunnerSetResources where
  "negPrio =
     \<lparr>Name = ''neg'', CPUMillis = 1000, MemoryBytes = GiB, Priority = - 1,
      MinRunners = 0, CurrentMax = 0, ConfiguredMax = 0\<rparr>"

definition posPrio :: RunnerSetResources where
  "posPrio =
     \<lparr>Name = ''pos'', CPUMillis = 1000, MemoryBytes = GiB, Priority = 1,
      MinRunners = 0, CurrentMax = 0, ConfiguredMax = 0\<rparr>"

definition prioThree :: RunnerSetResources where
  "prioThree =
     \<lparr>Name = ''three'', CPUMillis = 1000, MemoryBytes = GiB, Priority = 3,
      MinRunners = 0, CurrentMax = 0, ConfiguredMax = 0\<rparr>"



text \<open>Scenario C: no capacity at all, one runner set with 13 active runners.\<close>

definition scenarioC_X :: AutoscalingRunnerSet where
  "scenarioC_X =
     \<lparr>Namespace = ''arc'', ObjName = ''X'',
      Annotations = [(AnnotationEnabled, ''true''), (AnnotationCPU, ''1000m''),
                     (AnnotationMemory, ''2Gi'')],
      SpecMaxRunners = Some 20, TemplateContainers = [], CurrentRunners = 13\<rparr>"

definition scenarioC_client :: Client where
  "scenarioC_client =
     \<lparr>ListNodes = Some [], ListPods = Some [], ListRunnerSets = Some [scenarioC_X],
      PatchOk = (\<lambda>r v. True)\<rparr>"

definition liveConfig :: Config where
  "liveConfig = \<lparr>CPUBufferPercent = 10, MemoryBufferPercent = 10, DryRun = False\<rparr>"

text \<open>Scenario E: one ready node, a workload pod and a runner pod.\<close>

definition scenarioE_node :: Node where
  "scenarioE_node =
     \<lparr>Allocatable = [(''cpu'', milliCPU 10000), (''memory'', gibibytes 20)],
      Conditions = [(''Ready'', ''True'')]\<rparr>"

definition scenarioE_workload :: Pod where
  "scenarioE_workload =
     \<lparr>Phase = ''Running'', Labels = None,
      PodContainers =
        [\<lparr>ContainerName = ''app'',
          Requests = Some [(''cpu'', milliCPU 2000), (''memory'', gibibytes 4)]\<rparr>]\<rparr>"

definition scenarioE_runner :: Pod where
  "scenarioE_runner =
     \<lparr>Phase = ''Running'',
      Labels = Some [(''actions.github.com/scale-set-name'', ''ci'')],
      PodContainers =
        [\<lparr>ContainerName = ''runner'',
          Requests = Some [(''cpu'', milliCPU 1000), (''memory'', gibibytes 2)]\<rparr>]\<rparr>"

definition scenarioE_client :: Client where
  "scenarioE_client =
     \<lparr>ListNodes = Some [scenarioE_node],
      ListPods = Some [scenarioE_workload, scenarioE_runner],
      ListRunnerSets = Some [], PatchOk = (\<lambda>r v. True)\<rparr>"




text \<open>Scenario A of the specification.\<close>

definition scenarioA :: "RunnerSetResources list" where
  "scenarioA =
     [\<lparr>Name = ''A'', CPUMillis = 2000, MemoryBytes = 4 * GiB, Priority = 10,
       MinRunners = 0, CurrentMax = 5, ConfiguredMax = 5\<rparr>,
      \<lparr>Name = ''B'', CPUMillis = 1000, MemoryBytes = 2 * GiB, Priority = 5,
       MinRunners = 0, CurrentMax = 8, ConfiguredMax = 8\<rparr>,
      \<lparr>Name = ''C'', CPUMillis = 1000, MemoryBytes = 2 * GiB, Priority = 1,
       MinRunners = 0, CurrentMax = 10, ConfiguredMax = 10\<rparr>]"

section \<open>Auxiliary definitions\<close>

text \<open>
  The result of a tick that got its capacity and its runner sets, as one expression.
\<close>

definition outcomeFor ::
  "Config \<Rightarrow> Client \<Rightarrow> AutoscalingRunnerSet list \<Rightarrow> ClusterCapacity \<Rightarrow> Outcome" where
  "outcomeFor cfg client runnerSets capacity =
     (if runnerSets = [] \<or> enabledRunnerSets runnerSets = []
      then \<lparr>Allocations = [], Decisions = []\<rparr>
      else \<lparr>Allocations =
              Allocate (enabledRunnerSets runnerSets)
                (AvailableCPUMillis capacity) (AvailableMemoryBytes capacity),
            Decisions =
              map (decide cfg client runnerSets)
                (Allocate (enabledRunnerSets runnerSets)
                   (AvailableCPUMillis capacity) (AvailableMemoryBytes capacity))\<rparr>)"


text \<open>
  The slot count an allocation result holds for a name, read the way the reconciler
  and the tests read it: the first allocation of that name (0 when there is none).
\<close>

definition slotsFor :: "RunnerSetAllocation list \<Rightarrow> string \<Rightarrow> int" where
  "slotsFor allocations n =
     (case find (\<lambda>a. AllocName a = n) allocations of
        None \<Rightarrow> 0
      | Some a \<Rightarrow> MaxRunners a)"





section \<open>Evaluation rules\<close>

lemmas arith64 =
  wrap64_def add64_def sub64_def mul64_def quot64_def truncQuot_def in_int64_def

lemmas strict_defs =
  Allocate_def sortedRunnerSets_def prioLess_def strictSlots_def calculateMaxRunners_def
  Let_def

lemmas fair_defs =
  AllocateFairShare_def firstPass_def firstPassEntry_def shareOf_def
  totalPriorityWeight_def priorityWeight_def enforceMinimum_def secondPass_def
  additionalFor_def fsLess_def prioLess_def toResult_def calculateMaxRunners_def Let_def

lemmas parse_defs =
  parseResourceQuantityOrInt_def ParseInt_def ParseQuantity_def Atoi_def isDigit_def
  digitVal_def suffixThousandths_def Let_def


section \<open>Strict-priority allocation: minimum and cap\<close>

lemma strictSlots_cap_wins:
  "ConfiguredMax rs > 0 \<Longrightarrow> MinRunners rs > ConfiguredMax rs
     \<Longrightarrow> strictSlots rs c m = ConfiguredMax rs"
  by (simp add: strictSlots_def Let_def)

lemma strictSlots_min_holds:
  "ConfiguredMax rs \<le> 0 \<or> MinRunners rs \<le> ConfiguredMax rs
     \<Longrightarrow> MinRunners rs \<le> strictSlots rs c m"
  by (auto simp: strictSlots_def Let_def calculateMaxRunners_def)

lemma set_insertBy: "set (insertBy lt x xs) = insert x (set xs)"
  by (induction xs) auto

lemma length_insertBy: "length (insertBy lt x xs) = Suc (length xs)"
  by (induction xs) auto

lemma set_sortSlice: "set (sortSlice lt xs) = set xs"
  by (induction xs) (auto simp: set_insertBy)

lemma length_sortSlice: "length (sortSlice lt xs) = length xs"
  by (induction xs) (auto simp: length_insertBy)

lemma allocateLoop_min_and_cap:
  "list_all2
     (\<lambda>rs a. AllocName a = Name rs \<and>
        (if 0 < ConfiguredMax rs \<and> ConfiguredMax rs < MinRunners rs
         then MaxRunners a = ConfiguredMax rs
         else MinRunners rs \<le> MaxRunners a))
     xs (allocateLoop xs c m)"
proof (induction xs arbitrary: c m)
  case Nil
  show ?case by simp
next
  case (Cons rs rest)
  have "if 0 < ConfiguredMax rs \<and> ConfiguredMax rs < MinRunners rs
        then strictSlots rs c m = ConfiguredMax rs
        else MinRunners rs \<le> strictSlots rs c m"
    using strictSlots_cap_wins [of rs c m] strictSlots_min_holds [of rs c m] by auto
  with Cons.IH show ?case by (simp add: Let_def)
qed

text \<open>
  C1, as stated: a runner set with \<open>configured_max = 2\<close> and \<open>min_runners = 5\<close>, on a
  cluster with room for ten of its runners, would have to receive at least 5 slots.
  \<^verbatim>\<open>Allocate\<close> emits 2: the hard cap is applied after the minimum.
\<close>

theorem C1_counterexample:
  "Allocate [minOverCap] 10000 10240 = [\<lparr>AllocName = ''x'', MaxRunners = 2\<rparr>]"
  by (simp add: minOverCap_def strict_defs arith64)

text \<open>
  C1, amended: \<^verbatim>\<open>Allocate\<close> emits one allocation per runner set, in the sorted order.
  For a runner set with \<open>configured_max > 0\<close> and \<open>min_runners > configured_max\<close> the
  emitted slot count is exactly \<open>configured_max\<close> (the hard cap wins over the minimum);
  for every other runner set it is at least \<open>min_runners\<close>.
\<close>

theorem C1_cap_wins_over_minimum:
  "list_all2
     (\<lambda>rs a. AllocName a = Name rs \<and>
        (if 0 < ConfiguredMax rs \<and> ConfiguredMax rs < MinRunners rs
         then MaxRunners a = ConfiguredMax rs
         else MinRunners rs \<le> MaxRunners a))
     (sortedRunnerSets runnerSets) (Allocate runnerSets cpu mem)
   \<and> set (sortedRunnerSets runnerSets) = set runnerSets
   \<and> length (sortedRunnerSets runnerSets) = length runnerSets"
  by (simp add: Allocate_def allocateLoop_min_and_cap sortedRunnerSets_def
      set_sortSlice length_sortSlice)

theorem C1_cap_wins_over_minimum_witness:
  "list_all2
     (\<lambda>rs a. AllocName a = Name rs \<and>
        (if 0 < ConfiguredMax rs \<and> ConfiguredMax rs < MinRunners rs
         then MaxRunners a = ConfiguredMax rs
         else MinRunners rs \<le> MaxRunners a))
     [minOverCap] (Allocate [minOverCap] 10000 10240)
   \<and> 0 < ConfiguredMax minOverCap \<and> ConfiguredMax minOverCap < MinRunners minOverCap"
proof -
  have s: "sortedRunnerSets [minOverCap] = [minOverCap]"
    by (simp add: sortedRunnerSets_def)
  have c: "0 < ConfiguredMax minOverCap \<and> ConfiguredMax minOverCap < MinRunners minOverCap"
    by (simp add: minOverCap_def)
  from C1_cap_wins_over_minimum [of "[minOverCap]" 10000 10240] s c show ?thesis
    by simp
qed

section \<open>Weighted fair share: weights and shares\<close>

lemma priorityWeight_nonneg:
  "0 \<le> Priority rs \<Longrightarrow> priorityWeight rs = max (Priority rs) 1"
  by (simp add: priorityWeight_def Let_def)

text \<open>
  C4: the claim takes the weight of a runner set to be \<open>max(priority, 1)\<close>, also for a
  negative priority.  The code replaces only the priority 0.  For the runner sets
  \<open>negPrio\<close> (priority -1) and \<open>prioThree\<close> (priority 3) the claim gives the weights 1
  and 3, the total 4 and the CPU share \<open>floor(10000 * 3 / 4) = 7500\<close> for \<open>prioThree\<close>;
  the code computes the weights -1 and 3, the total 2 and the share 15000, more than
  the whole available capacity.
\<close>

theorem C4_negative_priority_weight:
  "priorityWeight negPrio = - 1
   \<and> totalPriorityWeight [negPrio, prioThree] = 2
   \<and> shareOf 10000 prioThree (totalPriorityWeight [negPrio, prioThree]) = 15000
   \<and> shareOf 10000 negPrio (totalPriorityWeight [negPrio, prioThree]) = - 5000"
  by (simp add: negPrio_def prioThree_def fair_defs arith64)

text \<open>
  C10: the runner sets \<open>negPrio\<close> (priority -1) and \<open>posPrio\<close> (priority 1) form a
  non-empty input whose priorities, with only the priority 0 mapped to 1, sum to zero.
  The share computation of \<^verbatim>\<open>AllocateFairShare\<close> then divides by zero, whatever the
  available capacity is: the call panics instead of returning allocations.
\<close>

theorem C10_zero_total_weight_panics:
  "[negPrio, posPrio] \<noteq> []
   \<and> priorityWeight negPrio = - 1 \<and> priorityWeight posPrio = 1
   \<and> totalPriorityWeight [negPrio, posPrio] = 0
   \<and> AllocateFairShare [negPrio, posPrio] cpu mem = Inl DivideByZero"
  by (simp add: negPrio_def posPrio_def AllocateFairShare_def firstPass_def
      totalPriorityWeight_def priorityWeight_def arith64)

text \<open>
  C7: scenario B.  With 10000 millicores and 20 GiB available, the first pass gives
  HIGH 2 slots, flagged as capped by its maximum, and LOW 2 slots from its share; the
  redistribution skips HIGH, which is at its cap, and adds 6 slots to LOW.  The result
  is HIGH = 2 and LOW = 8.
\<close>

theorem C7_scenario_B:
  "map_sum id (map (\<lambda>a. (Name (fsRunnerSet a), fsMaxRunners a, fsCappedByMax a)))
     (firstPass [scenarioB_HIGH, scenarioB_LOW] 10000 (20 * GiB)
        (totalPriorityWeight [scenarioB_HIGH, scenarioB_LOW]))
     = Inr [(''HIGH'', 2, True), (''LOW'', 2, False)]
   \<and> additionalFor (firstPassEntry scenarioB_HIGH 10000 (20 * GiB) 500) 6000 (12 * GiB) = 0
   \<and> additionalFor (firstPassEntry scenarioB_LOW 10000 (20 * GiB) 500) 6000 (12 * GiB) = 6
   \<and> AllocateFairShare [scenarioB_HIGH, scenarioB_LOW] 10000 (20 * GiB)
     = Inr [\<lparr>AllocName = ''HIGH'', MaxRunners = 2\<rparr>, \<lparr>AllocName = ''LOW'', MaxRunners = 8\<rparr>]"
  by code_simp

section \<open>Quantity parser\<close>

text \<open>
  C5: the parser tries the bare integer first and returns it unchanged, so \<open>"2"\<close> for CPU
  is 2 and not 2000; \<open>"2000m"\<close> for CPU is 2000; \<open>"4Gi"\<close> for memory is 4294967296.  A
  string that is neither a bare integer nor a valid quantity is an error.
\<close>

theorem C5_parser_integer_first:
  "parseResourceQuantityOrInt ''2'' True = Inr 2
   \<and> parseResourceQuantityOrInt ''2000m'' True = Inr 2000
   \<and> parseResourceQuantityOrInt ''4Gi'' False = Inr (4 * 1024 ^ 3)
   \<and> 4 * 1024 ^ 3 = (4294967296 :: int)
   \<and> (\<forall>s n isCPU. ParseInt s = Some n \<longrightarrow> parseResourceQuantityOrInt s isCPU = Inr n)
   \<and> (\<forall>s isCPU. ParseInt s = None \<and> ParseQuantity s = None
         \<longrightarrow> parseResourceQuantityOrInt s isCPU = Inl InvalidQuantity)"
proof -
  have a: "parseResourceQuantityOrInt ''2'' True = Inr 2"
    by (simp add: parse_defs arith64)
  have b: "parseResourceQuantityOrInt ''2000m'' True = Inr 2000"
    by (simp add: parse_defs arith64)
  have c: "parseResourceQuantityOrInt ''4Gi'' False = Inr (4 * 1024 ^ 3)"
    by (simp add: parse_defs arith64)
  have d: "\<forall>s n isCPU. ParseInt s = Some n \<longrightarrow> parseResourceQuantityOrInt s isCPU = Inr n"
    by (simp add: parseResourceQuantityOrInt_def)
  have e: "\<forall>s isCPU. ParseInt s = None \<and> ParseQuantity s = None
         \<longrightarrow> parseResourceQuantityOrInt s isCPU = Inl InvalidQuantity"
    by (simp add: parseResourceQuantityOrInt_def)
  from a b c d e show ?thesis by simp
qed

theorem C5_parser_integer_first_witness:
  "ParseInt ''2'' = Some 2 \<and> parseResourceQuantityOrInt ''2'' True = Inr 2
   \<and> ParseInt ''invalid'' = None \<and> ParseQuantity ''invalid'' = None
   \<and> parseResourceQuantityOrInt ''invalid'' True = Inl InvalidQuantity"
proof -
  have p: "ParseInt ''2'' = Some 2"
    by (simp add: parse_defs arith64)
  have q: "ParseInt ''invalid'' = None \<and> ParseQuantity ''invalid'' = None"
    by (simp add: parse_defs arith64)
  from C5_parser_integer_first
  have r: "ParseInt ''2'' = Some 2 \<longrightarrow> parseResourceQuantityOrInt ''2'' True = Inr 2"
    and s: "ParseInt ''invalid'' = None \<and> ParseQuantity ''invalid'' = None
         \<longrightarrow> parseResourceQuantityOrInt ''invalid'' True = Inl InvalidQuantity"
    by blast+
  from p q r s show ?thesis by blast
qed

section \<open>Resource extractor\<close>


section \<open>Reconciler: the safety floor\<close>

lemma names_allocateLoop: "map AllocName (allocateLoop xs c m) = map Name xs"
  by (induction xs arbitrary: c m) (simp_all add: Let_def)

lemma names_Allocate: "set (map AllocName (Allocate xs c m)) = set (map Name xs)"
  by (simp add: Allocate_def names_allocateLoop sortedRunnerSets_def set_sortSlice)

lemma Extract_name: "ExtractRunnerSetResources r = Inr res \<Longrightarrow> Name res = ObjName r"
  by (auto simp: ExtractRunnerSetResources_def split: if_splits sum.splits)

lemma names_enabled: "set (map Name (enabledRunnerSets rss)) \<subseteq> set (map ObjName rss)"
proof (induction rss)
  case Nil
  show ?case by simp
next
  case (Cons r rest)
  show ?case
  proof (cases "ExtractRunnerSetResources r")
    case (Inl e)
    with Cons.IH show ?thesis by auto
  next
    case (Inr res)
    with Cons.IH Extract_name [OF Inr] show ?thesis by auto
  qed
qed

lemma find_by_name:
  "n \<in> set (map ObjName rss) \<Longrightarrow> \<exists>r. find (\<lambda>x. ObjName x = n) rss = Some r"
  by (induction rss) auto

lemma find_props:
  "find (\<lambda>x. ObjName x = n) rss = Some r \<Longrightarrow> r \<in> set rss \<and> ObjName r = n"
  by (induction rss) (auto split: if_splits)

lemma decide_found:
  assumes "find (\<lambda>x. ObjName x = AllocName alloc) rss = Some r"
  shows "finalMax (decide cfg client rss alloc)
           = Some (r, max (MaxRunners alloc) (CurrentRunners r))"
  using assms by (simp add: decide_def Let_def max_def)

lemma decide_floor:
  assumes "AllocName alloc \<in> set (map ObjName rss)"
  shows "\<exists>r v. find (\<lambda>x. ObjName x = AllocName alloc) rss = Some r
           \<and> r \<in> set rss \<and> ObjName r = AllocName alloc
           \<and> finalMax (decide cfg client rss alloc) = Some (r, v)
           \<and> v = max (MaxRunners alloc) (CurrentRunners r) \<and> CurrentRunners r \<le> v"
proof -
  from find_by_name [OF assms] obtain r
    where f: "find (\<lambda>x. ObjName x = AllocName alloc) rss = Some r" by blast
  from find_props [OF f] decide_found [OF f, of cfg client] f show ?thesis by simp
qed

lemma list_all2_map_self:
  "(\<And>x. x \<in> set xs \<Longrightarrow> P x (f x)) \<Longrightarrow> list_all2 P xs (map f xs)"
  by (induction xs) auto

lemma ReconcileOnce_Inr:
  assumes "ReconcileOnce cfg client = Inr out"
    and "ListRunnerSets client = Some runnerSets"
  obtains capacity where
    "Calculate client (CPUBufferPercent cfg) (MemoryBufferPercent cfg) = Inr capacity"
    and "out = outcomeFor cfg client runnerSets capacity"
  using assms
  by (auto simp: ReconcileOnce_def outcomeFor_def Let_def split: sum.splits if_splits)

text \<open>
  C2: in one reconciliation tick every emitted allocation is matched with the first
  runner set \<open>r\<close> of its name, and the final \<^verbatim>\<open>maxRunners\<close> value \<open>v\<close> of the decision
  taken for it is \<open>max(allocated, currently_running)\<close>; in particular it is never below
  the number of active runners of \<open>r\<close>.
\<close>

theorem C2_safety_floor:
  assumes "ReconcileOnce cfg client = Inr out"
    and "ListRunnerSets client = Some runnerSets"
  shows "list_all2
           (\<lambda>alloc d. \<exists>r v.
              find (\<lambda>x. ObjName x = AllocName alloc) runnerSets = Some r
              \<and> r \<in> set runnerSets \<and> ObjName r = AllocName alloc
              \<and> finalMax d = Some (r, v)
              \<and> v = max (MaxRunners alloc) (CurrentRunners r) \<and> CurrentRunners r \<le> v)
           (Allocations out) (Decisions out)"
proof -
  from assms obtain capacity where
    o: "out = outcomeFor cfg client runnerSets capacity"
    by (rule ReconcileOnce_Inr)
  show ?thesis
  proof (cases "runnerSets = [] \<or> enabledRunnerSets runnerSets = []")
    case True
    with o show ?thesis by (simp add: outcomeFor_def)
  next
    case False
    with o have
      a: "Allocations out = Allocate (enabledRunnerSets runnerSets)
            (AvailableCPUMillis capacity) (AvailableMemoryBytes capacity)" and
      d: "Decisions out = map (decide cfg client runnerSets) (Allocations out)"
      by (simp_all add: outcomeFor_def)
    have "AllocName alloc \<in> set (map ObjName runnerSets)"
      if "alloc \<in> set (Allocations out)" for alloc
    proof -
      from that have "AllocName alloc \<in> set (map AllocName (Allocations out))" by simp
      with a names_Allocate
      have "AllocName alloc \<in> set (map Name (enabledRunnerSets runnerSets))" by simp
      with names_enabled [of runnerSets] show ?thesis by blast
    qed
    then show ?thesis
      unfolding d by (intro list_all2_map_self decide_floor)
  qed
qed

text \<open>
  Scenario C as the instance: no capacity, a runner set with 13 active runners.  The
  allocation is 0 and the final value is 13.
\<close>

theorem C2_safety_floor_witness:
  "ReconcileOnce liveConfig scenarioC_client
     = Inr \<lparr>Allocations = [\<lparr>AllocName = ''X'', MaxRunners = 0\<rparr>],
            Decisions = [Updated scenarioC_X 13]\<rparr>
   \<and> ListRunnerSets scenarioC_client = Some [scenarioC_X]
   \<and> list_all2
        (\<lambda>alloc d. \<exists>r v.
           find (\<lambda>x. ObjName x = AllocName alloc) [scenarioC_X] = Some r
           \<and> r \<in> set [scenarioC_X] \<and> ObjName r = AllocName alloc
           \<and> finalMax d = Some (r, v)
           \<and> v = max (MaxRunners alloc) (CurrentRunners r) \<and> CurrentRunners r \<le> v)
        [\<lparr>AllocName = ''X'', MaxRunners = 0\<rparr>] [Updated scenarioC_X 13]"
proof -
  have r: "ReconcileOnce liveConfig scenarioC_client
     = Inr \<lparr>Allocations = [\<lparr>AllocName = ''X'', MaxRunners = 0\<rparr>],
            Decisions = [Updated scenarioC_X 13]\<rparr>"
    by code_simp
  have l: "ListRunnerSets scenarioC_client = Some [scenarioC_X]"
    by (simp add: scenarioC_client_def)
  from C2_safety_floor [OF r l] r l show ?thesis by simp
qed

section \<open>Strict-priority allocation: capacity feasibility\<close>

lemma wrap64_id: "- (2 ^ 63) \<le> x \<Longrightarrow> x < 2 ^ 63 \<Longrightarrow> wrap64 x = x"
  by (simp add: wrap64_def)

lemma quot64_nonneg:
  assumes "0 \<le> a" "a < 2 ^ 63" "0 < b"
  shows "quot64 a b = a div b"
proof -
  have "0 \<le> a div b" using assms by (simp add: pos_imp_zdiv_nonneg_iff)
  moreover have "a div b \<le> a"
    using assms by (metis div_0 int_div_le_self linorder_le_less_linear nle_le)
  ultimately have "wrap64 (a div b) = a div b"
    using assms by (intro wrap64_id) auto
  with assms show ?thesis by (simp add: quot64_def truncQuot_def)
qed

lemma div_mult_le_int:
  assumes "0 < (b::int)"
  shows "(a div b) * b \<le> a"
proof -
  have "a = a div b * b + a mod b" by simp
  moreover have "0 \<le> a mod b" using assms by simp
  ultimately show ?thesis by linarith
qed

lemma fit_bounds:
  assumes "0 \<le> c" "c < 2 ^ 63" "0 \<le> m" "m < 2 ^ 63"
  shows "0 \<le> calculateMaxRunners rs c m
         \<and> calculateMaxRunners rs c m * CPUMillis rs \<le> c
         \<and> calculateMaxRunners rs c m * MemoryBytes rs \<le> m
         \<and> 0 \<le> calculateMaxRunners rs c m * CPUMillis rs
         \<and> 0 \<le> calculateMaxRunners rs c m * MemoryBytes rs"
proof (cases "CPUMillis rs \<le> 0 \<or> MemoryBytes rs \<le> 0")
  case True
  with assms show ?thesis by (simp add: calculateMaxRunners_def)
next
  case False
  then have p: "0 < CPUMillis rs" "0 < MemoryBytes rs" by auto
  define k where "k = min (m div MemoryBytes rs) (c div CPUMillis rs)"
  have k0: "0 \<le> k"
    using assms p by (simp add: k_def pos_imp_zdiv_nonneg_iff)
  have fit: "calculateMaxRunners rs c m = k"
    using assms p k0 by (simp add: calculateMaxRunners_def quot64_nonneg k_def Let_def)
  have "k * CPUMillis rs \<le> (c div CPUMillis rs) * CPUMillis rs"
    using p by (intro mult_right_mono) (simp_all add: k_def)
  then have kc: "k * CPUMillis rs \<le> c"
    using div_mult_le_int [OF p(1), of c] by linarith
  have "k * MemoryBytes rs \<le> (m div MemoryBytes rs) * MemoryBytes rs"
    using p by (intro mult_right_mono) (simp_all add: k_def)
  then have km: "k * MemoryBytes rs \<le> m"
    using div_mult_le_int [OF p(2), of m] by linarith
  from k0 p kc km show ?thesis by (simp add: fit)
qed

lemma strictSlots_bounds:
  assumes "MinRunners rs = 0" "0 \<le> c" "c < 2 ^ 63" "0 \<le> m" "m < 2 ^ 63"
  shows "0 \<le> strictSlots rs c m * CPUMillis rs \<and> strictSlots rs c m * CPUMillis rs \<le> c
         \<and> 0 \<le> strictSlots rs c m * MemoryBytes rs
         \<and> strictSlots rs c m * MemoryBytes rs \<le> m"
proof (cases "CPUMillis rs \<le> 0 \<or> MemoryBytes rs \<le> 0")
  case True
  with assms show ?thesis by (simp add: strictSlots_def calculateMaxRunners_def)
next
  case False
  then have p: "0 < CPUMillis rs" "0 < MemoryBytes rs" by auto
  let ?k = "calculateMaxRunners rs c m"
  let ?s = "strictSlots rs c m"
  from fit_bounds [OF assms(2-5), of rs]
  have f: "0 \<le> ?k" "?k * CPUMillis rs \<le> c" "?k * MemoryBytes rs \<le> m" by simp_all
  have s: "0 \<le> ?s \<and> ?s \<le> ?k"
    using assms(1) f(1) by (auto simp: strictSlots_def Let_def)
  have "?s * CPUMillis rs \<le> ?k * CPUMillis rs" "?s * MemoryBytes rs \<le> ?k * MemoryBytes rs"
    using s p by (simp_all add: mult_right_mono)
  moreover have "0 \<le> ?s * CPUMillis rs" "0 \<le> ?s * MemoryBytes rs"
    using s p by (simp_all add: mult_nonneg_nonneg)
  ultimately show ?thesis using f by linarith
qed

lemma allocateLoop_feasible:
  assumes "list_all (\<lambda>rs. MinRunners rs = 0) xs" "0 \<le> c" "c < 2 ^ 63" "0 \<le> m" "m < 2 ^ 63"
  shows "(\<Sum>(rs, a) \<leftarrow> zip xs (allocateLoop xs c m). MaxRunners a * CPUMillis rs) \<le> c
         \<and> (\<Sum>(rs, a) \<leftarrow> zip xs (allocateLoop xs c m). MaxRunners a * MemoryBytes rs) \<le> m"
  using assms
proof (induction xs arbitrary: c m)
  case Nil
  then show ?case by simp
next
  case (Cons rs rest)
  let ?s = "strictSlots rs c m"
  from Cons.prems have z: "MinRunners rs = 0" and r: "list_all (\<lambda>rs. MinRunners rs = 0) rest"
    by simp_all
  from strictSlots_bounds [OF z Cons.prems(2-5)]
  have b: "0 \<le> ?s * CPUMillis rs" "?s * CPUMillis rs \<le> c"
          "0 \<le> ?s * MemoryBytes rs" "?s * MemoryBytes rs \<le> m" by simp_all
  have mc: "mul64 ?s (CPUMillis rs) = ?s * CPUMillis rs"
    unfolding mul64_def using b Cons.prems by (intro wrap64_id) auto
  have mm: "mul64 ?s (MemoryBytes rs) = ?s * MemoryBytes rs"
    unfolding mul64_def using b Cons.prems by (intro wrap64_id) auto
  have sc: "sub64 c (?s * CPUMillis rs) = c - ?s * CPUMillis rs"
    unfolding sub64_def using b Cons.prems by (intro wrap64_id) auto
  have sm: "sub64 m (?s * MemoryBytes rs) = m - ?s * MemoryBytes rs"
    unfolding sub64_def using b Cons.prems by (intro wrap64_id) auto
  have "(\<Sum>(rs, a) \<leftarrow> zip rest (allocateLoop rest (c - ?s * CPUMillis rs)
             (m - ?s * MemoryBytes rs)). MaxRunners a * CPUMillis rs) \<le> c - ?s * CPUMillis rs
        \<and> (\<Sum>(rs, a) \<leftarrow> zip rest (allocateLoop rest (c - ?s * CPUMillis rs)
             (m - ?s * MemoryBytes rs)). MaxRunners a * MemoryBytes rs) \<le> m - ?s * MemoryBytes rs"
    using b Cons.prems by (intro Cons.IH [OF r]) auto
  then show ?case by (simp add: Let_def mc mm sc sm)
qed

lemma sum_insertBy:
  "(\<Sum>x \<leftarrow> insertBy lt y xs. f x) = f y + (\<Sum>x \<leftarrow> xs. (f x :: int))"
  by (induction xs) auto

lemma sum_sortSlice: "(\<Sum>x \<leftarrow> sortSlice lt xs. f x) = (\<Sum>x \<leftarrow> xs. (f x :: int))"
  by (induction xs) (auto simp: sum_insertBy)

lemma distinct_insertBy:
  "distinct (map g (insertBy lt y xs)) \<longleftrightarrow> g y \<notin> g ` set xs \<and> distinct (map g xs)"
  by (induction xs) (auto simp: set_insertBy)

lemma distinct_sortSlice: "distinct (map g (sortSlice lt xs)) \<longleftrightarrow> distinct (map g xs)"
  by (induction xs) (auto simp: distinct_insertBy set_sortSlice)

lemma slotsFor_Cons:
  "slotsFor (a # as) n = (if AllocName a = n then MaxRunners a else slotsFor as n)"
  by (simp add: slotsFor_def)

lemma sum_by_name:
  assumes "length xs = length as" "map AllocName as = map Name xs" "distinct (map Name xs)"
  shows "(\<Sum>rs \<leftarrow> xs. slotsFor as (Name rs) * w rs)
         = (\<Sum>(rs, a) \<leftarrow> zip xs as. MaxRunners a * w rs)"
  using assms
proof (induction xs as rule: list_induct2)
  case Nil
  show ?case by simp
next
  case (Cons rs xs a as)
  then have n: "AllocName a = Name rs" and t: "map AllocName as = map Name xs"
    and d: "distinct (map Name xs)" and nin: "Name rs \<notin> Name ` set xs" by auto
  have "(\<Sum>r \<leftarrow> xs. slotsFor (a # as) (Name r) * w r) = (\<Sum>r \<leftarrow> xs. slotsFor as (Name r) * w r)"
  proof (rule arg_cong [where f = sum_list], rule map_cong [OF refl])
    fix r assume "r \<in> set xs"
    then have "Name r \<in> Name ` set xs" by (rule imageI)
    with nin have "Name r \<noteq> Name rs" by metis
    with n show "slotsFor (a # as) (Name r) * w r = slotsFor as (Name r) * w r"
      by (simp add: slotsFor_Cons)
  qed
  with Cons.IH [OF t d] n show ?case by (simp add: slotsFor_Cons)
qed

text \<open>
  C3: when every runner set has \<open>min_runners = 0\<close> and the available CPU and memory are
  non-negative 64 bit values, the slot counts that \<^verbatim>\<open>Allocate\<close> emits fit into the
  capacity: the sum over the runner sets of slots times CPU is at most the available
  CPU, and likewise for memory.  The slot count of a runner set is looked up by its
  name, so the names are taken to be distinct, as the data model requires.
\<close>

theorem C3_capacity_feasible:
  assumes "list_all (\<lambda>rs. MinRunners rs = 0) runnerSets"
    and "distinct (map Name runnerSets)"
    and "0 \<le> cpu" "cpu < 2 ^ 63" "0 \<le> mem" "mem < 2 ^ 63"
  shows "(\<Sum>rs \<leftarrow> runnerSets. slotsFor (Allocate runnerSets cpu mem) (Name rs) * CPUMillis rs)
           \<le> cpu
         \<and> (\<Sum>rs \<leftarrow> runnerSets.
               slotsFor (Allocate runnerSets cpu mem) (Name rs) * MemoryBytes rs) \<le> mem"
proof -
  let ?S = "sortedRunnerSets runnerSets"
  let ?A = "Allocate runnerSets cpu mem"
  have A: "?A = allocateLoop ?S cpu mem" by (simp add: Allocate_def)
  have z: "list_all (\<lambda>rs. MinRunners rs = 0) ?S"
    using assms(1) by (simp add: list_all_iff sortedRunnerSets_def set_sortSlice)
  have d: "distinct (map Name ?S)"
    using assms(2) by (simp add: sortedRunnerSets_def distinct_sortSlice)
  have n: "map AllocName ?A = map Name ?S" by (simp add: A names_allocateLoop)
  then have l: "length ?S = length ?A" by (metis length_map)
  have perm: "(\<Sum>rs \<leftarrow> runnerSets. slotsFor ?A (Name rs) * w rs)
              = (\<Sum>rs \<leftarrow> ?S. slotsFor ?A (Name rs) * w rs)" for w
    by (simp add: sortedRunnerSets_def sum_sortSlice)
  from allocateLoop_feasible [OF z assms(3-6)] sum_by_name [OF l n d] perm A
  show ?thesis by simp
qed

theorem C3_capacity_feasible_witness:
  "list_all (\<lambda>rs. MinRunners rs = 0) scenarioA \<and> distinct (map Name scenarioA)
   \<and> Allocate scenarioA 20000 (40 * GiB)
       = [\<lparr>AllocName = ''A'', MaxRunners = 5\<rparr>, \<lparr>AllocName = ''B'', MaxRunners = 8\<rparr>,
          \<lparr>AllocName = ''C'', MaxRunners = 2\<rparr>]
   \<and> (\<Sum>rs \<leftarrow> scenarioA. slotsFor (Allocate scenarioA 20000 (40 * GiB)) (Name rs)
          * CPUMillis rs) \<le> 20000
   \<and> (\<Sum>rs \<leftarrow> scenarioA. slotsFor (Allocate scenarioA 20000 (40 * GiB)) (Name rs)
          * MemoryBytes rs) \<le> 40 * GiB"
proof -
  have z: "list_all (\<lambda>rs. MinRunners rs = 0) scenarioA" by (simp add: scenarioA_def)
  have d: "distinct (map Name scenarioA)" by (simp add: scenarioA_def)
  have m: "(0::int) \<le> 40 * GiB" "40 * GiB < 2 ^ 63" by (simp_all add: GiB_def)
  have a: "Allocate scenarioA 20000 (40 * GiB)
       = [\<lparr>AllocName = ''A'', MaxRunners = 5\<rparr>, \<lparr>AllocName = ''B'', MaxRunners = 8\<rparr>,
          \<lparr>AllocName = ''C'', MaxRunners = 2\<rparr>]"
    by code_simp
  from C3_capacity_feasible [OF z d _ _ m, of 20000] z d a show ?thesis by simp
qed

section \<open>Capacity calculator\<close>

lemma wrap64_zero: "wrap64 0 = 0"
  by (simp add: wrap64_def)

lemma wrap64_add_left: "wrap64 (wrap64 a + b) = wrap64 (a + b)"
proof -
  have "(wrap64 a + b + 2 ^ 63) mod 2 ^ 64 = ((a + 2 ^ 63) mod 2 ^ 64 + b) mod 2 ^ 64"
    by (simp add: wrap64_def)
  also have "\<dots> = (a + 2 ^ 63 + b) mod 2 ^ 64"
    by (rule mod_add_left_eq)
  also have "a + 2 ^ 63 + b = a + b + 2 ^ 63" by simp
  finally show ?thesis by (simp only: wrap64_def)
qed

lemma wrap64_add_right: "wrap64 (a + wrap64 b) = wrap64 (a + b)"
  using wrap64_add_left [of b a] by (simp add: add.commute)

lemma add64_wrapped: "add64 (wrap64 a) b = wrap64 (a + b)"
  by (simp add: add64_def wrap64_add_left)

lemma add64_wrapped2: "add64 (wrap64 a) (wrap64 b) = wrap64 (a + b)"
  by (simp add: add64_def wrap64_add_left wrap64_add_right)

lemma nodeLoop_sums:
  "nodeLoop nodes (wrap64 t, wrap64 m, wrap64 n)
     = (wrap64 (t + specTotalCPU nodes), wrap64 (m + specTotalMemory nodes),
        wrap64 (n + int (length (filter (\<lambda>x. isNodeReady (Conditions x)) nodes))))"
proof (induction nodes arbitrary: t m n)
  case Nil
  show ?case by (simp add: specTotalCPU_def specTotalMemory_def)
next
  case (Cons node rest)
  show ?case
  proof (cases "isNodeReady (Conditions node)")
    case False
    with Cons.IH [of t m n] show ?thesis
      by (simp add: specTotalCPU_def specTotalMemory_def)
  next
    case True
    with Cons.IH [of "t + MilliValue (quantityAt (Allocatable node) ''cpu'')"
        "m + Value (quantityAt (Allocatable node) ''memory'')" "n + 1"]
    show ?thesis
      by (simp add: specTotalCPU_def specTotalMemory_def add64_wrapped Let_def add.assoc)
  qed
qed

lemma containerLoop_sums:
  "containerLoop cs (wrap64 a, wrap64 b)
     = (wrap64 (a + (\<Sum>c \<leftarrow> cs. MilliValue (requestAt c ''cpu''))),
        wrap64 (b + (\<Sum>c \<leftarrow> cs. Value (requestAt c ''memory''))))"
proof (induction cs arbitrary: a b)
  case Nil
  show ?case by simp
next
  case (Cons c rest)
  from Cons.IH [of "a + MilliValue (requestAt c ''cpu'')" "b + Value (requestAt c ''memory'')"]
  show ?case by (simp add: add64_wrapped add.assoc)
qed

lemma containerLoop_start:
  "containerLoop cs (0, 0)
     = (wrap64 (\<Sum>c \<leftarrow> cs. MilliValue (requestAt c ''cpu'')),
        wrap64 (\<Sum>c \<leftarrow> cs. Value (requestAt c ''memory'')))"
  using containerLoop_sums [of cs 0 0] by (simp add: wrap64_zero)

lemma podLoop_sums:
  "\<exists>e1' e2' n1' n2'.
     podLoop pods (wrap64 c, wrap64 m, e1, e2, n1, n2)
       = (wrap64 (c + specUsedCPU pods), wrap64 (m + specUsedMemory pods), e1', e2', n1', n2')"
proof (induction pods arbitrary: c m e1 e2 n1 n2)
  case Nil
  show ?case by (simp add: specUsedCPU_def specUsedMemory_def countedPods_def)
next
  case (Cons pod rest)
  show ?case
  proof (cases "isTerminal pod")
    case True
    with Cons.IH [of c m e1 e2 n1 n2] show ?thesis
      by (simp add: specUsedCPU_def specUsedMemory_def countedPods_def)
  next
    case False
    note live = this
    show ?thesis
    proof (cases "isRunnerPod pod")
      case True
      with live Cons.IH [of c m] show ?thesis
        by (simp add: specUsedCPU_def specUsedMemory_def countedPods_def
            containerLoop_start)
    next
      case False
      with live
        Cons.IH [of "c + (\<Sum>x \<leftarrow> PodContainers pod. MilliValue (requestAt x ''cpu''))"
          "m + (\<Sum>x \<leftarrow> PodContainers pod. Value (requestAt x ''memory''))"]
      show ?thesis
        by (simp add: specUsedCPU_def specUsedMemory_def countedPods_def
            containerLoop_start add64_wrapped2 add.assoc)
    qed
  qed
qed

lemma getClusterCapacity_sums:
  assumes "ListNodes client = Some nodes"
  shows "\<exists>n. getClusterCapacity client
           = Some (wrap64 (specTotalCPU nodes), wrap64 (specTotalMemory nodes), n)"
  using assms nodeLoop_sums [of nodes 0 0 0]
  by (simp add: getClusterCapacity_def wrap64_zero)

lemma getCurrentUsage_sums:
  assumes "ListPods client = Some pods"
  shows "\<exists>e1 e2 n1 n2. getCurrentUsage client
           = Some (wrap64 (specUsedCPU pods), wrap64 (specUsedMemory pods), e1, e2, n1, n2)"
  using assms podLoop_sums [of pods 0 0 0 0 0 0]
  by (simp add: getCurrentUsage_def wrap64_zero)

lemma buffered_available:
  assumes "0 \<le> b" "b \<le> 100" "0 \<le> t" "100 * t < 2 ^ 63" "0 \<le> u" "u < 2 ^ 63"
  shows "quot64 (mul64 (max (sub64 t u) 0) (sub64 100 b)) 100 = specAvailable t u b"
    and "specAvailable t u b = (max (t - u) 0 * (100 - b)) div 100"
proof -
  have s: "sub64 t u = t - u"
    unfolding sub64_def using assms by (intro wrap64_id) auto
  have sb: "sub64 100 b = 100 - b"
    unfolding sub64_def using assms by (intro wrap64_id) auto
  let ?r = "max (t - u) 0"
  have r: "0 \<le> ?r" "?r \<le> t" using assms by auto
  have "?r * (100 - b) \<le> t * 100"
    using r assms by (intro mult_mono) auto
  then have p: "0 \<le> ?r * (100 - b)" "?r * (100 - b) < 2 ^ 63"
    using r assms by (auto simp: mult_nonneg_nonneg)
  have m: "mul64 ?r (100 - b) = ?r * (100 - b)"
    unfolding mul64_def using p by (intro wrap64_id) auto
  show q: "specAvailable t u b = (max (t - u) 0 * (100 - b)) div 100"
    using p by (simp add: specAvailable_def truncQuot_def)
  have "quot64 (?r * (100 - b)) 100 = (?r * (100 - b)) div 100"
    using p by (intro quot64_nonneg) auto
  with s sb m q show "quot64 (mul64 (max (sub64 t u) 0) (sub64 100 b)) 100 = specAvailable t u b"
    by simp
qed

text \<open>
  C6: when the buffer percentages are between 0 and 100 and the sums involved are
  non-negative and do not leave the 64 bit range, \<^verbatim>\<open>Calculate\<close> returns the totals
  over the ready nodes, the usage over the pods that are neither terminal nor runner
  pods, and for each resource \<open>available = max(total - used, 0) * (100 - buffer) / 100\<close>
  with truncating integer division.
\<close>

theorem C6_capacity_formula:
  assumes "ListNodes client = Some nodes" and "ListPods client = Some pods"
    and "0 \<le> bc" "bc \<le> 100" "0 \<le> bm" "bm \<le> 100"
    and "0 \<le> specTotalCPU nodes" "100 * specTotalCPU nodes < 2 ^ 63"
    and "0 \<le> specUsedCPU pods" "specUsedCPU pods < 2 ^ 63"
    and "0 \<le> specTotalMemory nodes" "100 * specTotalMemory nodes < 2 ^ 63"
    and "0 \<le> specUsedMemory pods" "specUsedMemory pods < 2 ^ 63"
  shows "Calculate client bc bm =
           Inr \<lparr>TotalCPUMillis = specTotalCPU nodes,
                TotalMemoryBytes = specTotalMemory nodes,
                UsedCPUMillis = specUsedCPU pods,
                UsedMemoryBytes = specUsedMemory pods,
                AvailableCPUMillis =
                  truncQuot (max (specTotalCPU nodes - specUsedCPU pods) 0 * (100 - bc)) 100,
                AvailableMemoryBytes =
                  truncQuot (max (specTotalMemory nodes - specUsedMemory pods) 0 * (100 - bm))
                    100\<rparr>"
proof -
  from getClusterCapacity_sums [OF assms(1)] obtain n where
    g: "getClusterCapacity client
          = Some (wrap64 (specTotalCPU nodes), wrap64 (specTotalMemory nodes), n)" by blast
  from getCurrentUsage_sums [OF assms(2)] obtain e1 e2 n1 n2 where
    u: "getCurrentUsage client
          = Some (wrap64 (specUsedCPU pods), wrap64 (specUsedMemory pods), e1, e2, n1, n2)"
    by blast
  have w: "wrap64 (specTotalCPU nodes) = specTotalCPU nodes"
      "wrap64 (specTotalMemory nodes) = specTotalMemory nodes"
      "wrap64 (specUsedCPU pods) = specUsedCPU pods"
      "wrap64 (specUsedMemory pods) = specUsedMemory pods"
    using assms by (auto intro!: wrap64_id)
  note c = buffered_available [OF assms(3,4,7,8,9,10)]
  note m = buffered_available [OF assms(5,6,11,12,13,14)]
  show ?thesis
    by (simp add: Calculate_def g u w Let_def c(1) m(1) specAvailable_def)
qed

text \<open>
  Scenario E as the instance: one ready node with 10000 millicores and 20 GiB, a
  workload pod requesting 2000 millicores and 4 GiB, a runner pod requesting 1000
  millicores and 2 GiB, and buffers of 10 percent.  Only the workload pod is counted
  as used; 7200 millicores and 15461882265 bytes are available.
\<close>

theorem C6_capacity_formula_witness:
  "countedPods [scenarioE_workload, scenarioE_runner] = [scenarioE_workload]
   \<and> Calculate scenarioE_client 10 10 =
       Inr \<lparr>TotalCPUMillis = 10000, TotalMemoryBytes = 20 * GiB,
            UsedCPUMillis = 2000, UsedMemoryBytes = 4 * GiB,
            AvailableCPUMillis = 7200, AvailableMemoryBytes = 15461882265\<rparr>"
proof -
  let ?nodes = "[scenarioE_node]"
  let ?pods = "[scenarioE_workload, scenarioE_runner]"
  have n: "ListNodes scenarioE_client = Some ?nodes"
    and p: "ListPods scenarioE_client = Some ?pods"
    by (simp_all add: scenarioE_client_def)
  have cp: "countedPods ?pods = [scenarioE_workload]"
    by (simp add: countedPods_def isTerminal_def isRunnerPod_def scenarioE_workload_def
        scenarioE_runner_def)
  have tc: "specTotalCPU ?nodes = 10000"
    by (simp add: specTotalCPU_def scenarioE_node_def quantityAt_def milliCPU_def)
  have tm: "specTotalMemory ?nodes = 20 * GiB"
    by (simp add: specTotalMemory_def scenarioE_node_def quantityAt_def gibibytes_def)
  have uc: "specUsedCPU ?pods = 2000"
    unfolding specUsedCPU_def cp
    by (simp add: scenarioE_workload_def requestAt_def quantityAt_def milliCPU_def)
  have um: "specUsedMemory ?pods = 4 * GiB"
    unfolding specUsedMemory_def cp
    by (simp add: scenarioE_workload_def requestAt_def quantityAt_def gibibytes_def)
  have "Calculate scenarioE_client 10 10 =
           Inr \<lparr>TotalCPUMillis = specTotalCPU ?nodes,
                TotalMemoryBytes = specTotalMemory ?nodes,
                UsedCPUMillis = specUsedCPU ?pods,
                UsedMemoryBytes = specUsedMemory ?pods,
                AvailableCPUMillis =
                  truncQuot (max (specTotalCPU ?nodes - specUsedCPU ?pods) 0 * (100 - 10)) 100,
                AvailableMemoryBytes =
                  truncQuot (max (specTotalMemory ?nodes - specUsedMemory ?pods) 0 * (100 - 10))
                    100\<rparr>"
    by (rule C6_capacity_formula [OF n p]) (simp_all add: tc tm uc um GiB_def)
  then have "Calculate scenarioE_client 10 10 =
       Inr \<lparr>TotalCPUMillis = 10000, TotalMemoryBytes = 20 * GiB,
            UsedCPUMillis = 2000, UsedMemoryBytes = 4 * GiB,
            AvailableCPUMillis = 7200, AvailableMemoryBytes = 15461882265\<rparr>"
    by (simp add: tc tm uc um GiB_def truncQuot_def)
  with cp show ?thesis by simp
qed

section \<open>Reconciler: a second tick\<close>







































section \<open>Weighted fair share: non-negative priorities\<close>

text \<open>
  For priorities that are not negative the weights, their total and the shares are the
  ones of the specification, as long as the sums and products stay within 64 bits.
\<close>

lemma totalWeightLoop_sum:
  "totalWeightLoop rss (wrap64 t) = wrap64 (t + (\<Sum>rs \<leftarrow> rss. priorityWeight rs))"
proof (induction rss arbitrary: t)
  case Nil
  show ?case by simp
next
  case (Cons rs rest)
  from Cons.IH [of "t + priorityWeight rs"] show ?case
    by (simp add: add64_wrapped add.assoc)
qed

lemma totalPriorityWeight_nonneg:
  assumes "list_all (\<lambda>rs. 0 \<le> Priority rs) rss"
    and "(\<Sum>rs \<leftarrow> rss. max (Priority rs) 1) < 2 ^ 63"
  shows "totalPriorityWeight rss = (\<Sum>rs \<leftarrow> rss. max (Priority rs) 1)"
proof -
  have e: "map priorityWeight rss = map (\<lambda>rs. max (Priority rs) 1) rss"
    using assms(1) by (simp add: list_all_iff priorityWeight_nonneg)
  have "0 \<le> (\<Sum>rs \<leftarrow> rss. max (Priority rs) 1)"
    by (rule sum_list_nonneg) auto
  with assms(2) have "wrap64 (\<Sum>rs \<leftarrow> rss. max (Priority rs) 1) = (\<Sum>rs \<leftarrow> rss. max (Priority rs) 1)"
    by (intro wrap64_id) auto
  with totalWeightLoop_sum [of rss 0] e show ?thesis
    by (simp add: totalPriorityWeight_def wrap64_zero)
qed

lemma shareOf_floor:
  assumes "0 \<le> Priority rs" "0 \<le> available" "available * max (Priority rs) 1 < 2 ^ 63"
    and "0 < W"
  shows "shareOf available rs W = (available * max (Priority rs) 1) div W"
proof -
  let ?p = "available * max (Priority rs) 1"
  have p: "0 \<le> ?p" using assms by (simp add: mult_nonneg_nonneg)
  have "- (2 ^ 63) \<le> (0::int)" by simp
  from this p have "- (2 ^ 63) \<le> ?p" by (rule order_trans)
  with assms have "mul64 available (max (Priority rs) 1) = ?p"
    unfolding mul64_def by (intro wrap64_id) auto
  moreover have "quot64 ?p W = ?p div W"
    using p assms by (intro quot64_nonneg) auto
  ultimately show ?thesis
    using assms(1) by (simp add: shareOf_def priorityWeight_nonneg)
qed

end
